theory Spec2Isabelle
  imports Main "HOL-Library.Word" "HOL-Library.Multiset"
begin

section \<open>Values exchanged with the ledger client\<close>

text \<open>
  A shallow embedding of \<^verbatim>\<open>blockchain_monitor.py\<close> and \<^verbatim>\<open>withdrawal_monitor.py\<close>.
  Exceptions are values: a call that may raise returns \<open>exn + 'a\<close>, with \<open>Inl\<close> the
  exception. Record fields carry a short prefix, because the source uses the same key
  (\<^verbatim>\<open>hash\<close>, \<^verbatim>\<open>status\<close>, \<^verbatim>\<open>block_number\<close>) in several dictionaries and classes.
  A \<^verbatim>\<open>datetime\<close> is its number of microseconds since the epoch, as an \<open>int\<close>.
\<close>

type_synonym byte = "8 word"

datatype exn = TransactionNotFound | RpcError | ValueError | KeyError

text \<open>A log entry as returned by \<^verbatim>\<open>w3.eth.get_logs\<close>; the source reads one attribute.\<close>

record event_log =
  transactionHash :: "byte list"

text \<open>The attributes of a transaction, a receipt and a block that the source reads.\<close>

record ledger_tx =
  ltx_input :: "byte list"
  ltx_blockNumber :: int
  ltx_to :: string
  ltx_from :: string
  ltx_value :: int
  ltx_gas :: int
  ltx_gasPrice :: int

record ledger_receipt =
  lr_status :: int
  lr_blockNumber :: int
  lr_gasUsed :: int

record ledger_block =
  lb_timestamp :: int

text \<open>
  One connected \<^verbatim>\<open>Web3\<close> instance (\<^verbatim>\<open>w3.eth\<close>): every request either raises or answers.
\<close>

record web3 =
  eth_block_number :: "exn + int"
  eth_get_logs :: "int \<Rightarrow> int \<Rightarrow> string \<Rightarrow> exn + event_log list"
  eth_get_transaction :: "string \<Rightarrow> exn + ledger_tx"
  eth_get_block :: "int \<Rightarrow> exn + ledger_block"
  eth_get_transaction_receipt :: "string \<Rightarrow> exn + ledger_receipt"

text \<open>
  What the Python runtime and the web3 library supply and the repository does not define:
  the Keccak hash of a text, the checksum form of an address, the ABI decoder for the
  six withdraw parameters, and the order in which a \<^verbatim>\<open>set\<close> of strings is iterated.
  CPython iterates a set in the order of its hash-table slots; \<open>set_slot\<close> is the key by
  which the members are ordered.
\<close>

record runtime =
  keccak_text :: "string \<Rightarrow> byte list"
  to_checksum_address :: "string \<Rightarrow> exn + string"
  codec_decode :: "byte list \<Rightarrow> exn + (int \<times> string \<times> int \<times> int \<times> byte list \<times> byte list)"
  set_slot :: "string \<Rightarrow> nat"

text \<open>The configuration keys the two modules read.\<close>

record config =
  cfg_chains :: "string list"
  cfg_explorer_url :: "string \<rightharpoonup> string"
  cfg_exchange_contracts :: "string \<rightharpoonup> string"
  cfg_initial_block_range :: "int option"

section \<open>Python built-ins\<close>

text \<open>\<^verbatim>\<open>range(a, b, s)\<close> for a positive step, the only kind the source uses.\<close>

function py_range :: "int \<Rightarrow> int \<Rightarrow> int \<Rightarrow> int list" where
  "py_range a b s = (if 0 < s \<and> a < b then a # py_range (a + s) b s else [])"
  by pat_completeness auto
termination
  by (relation "measure (\<lambda>(a, b, s). nat (b - a))") auto

declare py_range.simps [simp del]

text \<open>
  A Python \<^verbatim>\<open>set\<close> of strings is a duplicate-free list of its members, kept in the order
  they were added. Python exposes membership, size and iteration only:
  \<open>py_list\<close> is \<^verbatim>\<open>list(s)\<close>, the members in slot order, and \<open>py_set\<close> is \<^verbatim>\<open>set(xs)\<close>.
\<close>

definition set_add :: "string \<Rightarrow> string list \<Rightarrow> string list" where
  "set_add x s = (if x \<in> set s then s else s @ [x])"

definition py_set :: "string list \<Rightarrow> string list" where
  "py_set xs = fold set_add xs []"

definition py_list :: "runtime \<Rightarrow> string list \<Rightarrow> string list" where
  "py_list rt s = sort_key (set_slot rt) s"

text \<open>\<^verbatim>\<open>bytes.hex()\<close> and \<^verbatim>\<open>bytes.fromhex\<close>; the latter skips ASCII whitespace between bytes.\<close>

definition hex_digit :: "nat \<Rightarrow> char" where
  "hex_digit n = ''0123456789abcdef'' ! (n mod 16)"

definition hex_of_bytes :: "byte list \<Rightarrow> string" where
  "hex_of_bytes bs = concat (map (\<lambda>b. [hex_digit (unat b div 16), hex_digit (unat b)]) bs)"

definition digit_val :: "char \<Rightarrow> nat option" where
  "digit_val c =
     (let n = of_char c :: nat in
      if 48 \<le> n \<and> n \<le> 57 then Some (n - 48)
      else if 97 \<le> n \<and> n \<le> 102 then Some (n - 87)
      else if 65 \<le> n \<and> n \<le> 70 then Some (n - 55)
      else None)"

definition is_space :: "char \<Rightarrow> bool" where
  "is_space c = (let n = of_char c :: nat in n = 32 \<or> (9 \<le> n \<and> n \<le> 13))"

fun fromhex :: "string \<Rightarrow> exn + byte list" where
  "fromhex [] = Inr []"
| "fromhex [c] = (if is_space c then Inr [] else Inl ValueError)"
| "fromhex (c # d # cs) =
     (if is_space c then fromhex (d # cs)
      else case (digit_val c, digit_val d) of
        (Some h, Some l) \<Rightarrow>
          (case fromhex cs of
             Inl e \<Rightarrow> Inl e
           | Inr bs \<Rightarrow> Inr (of_nat (16 * h + l) # bs))
      | _ \<Rightarrow> Inl ValueError)"

section \<open>BlockchainMonitor\<close>

subsection \<open>\<^verbatim>\<open>_is_withdraw_function\<close>\<close>

definition withdraw_signature :: string where
  "withdraw_signature = ''withdraw(uint256,address,uint256,uint8,bytes32,bytes32)''"

definition is_withdraw_function :: "runtime \<Rightarrow> byte list \<Rightarrow> bool" where
  "is_withdraw_function rt input_data =
     (if length input_data < 4 then False
      else
        let function_selector = take 4 input_data;
            withdraw_selector = take 4 (keccak_text rt withdraw_signature)
        in function_selector = withdraw_selector)"

subsection \<open>\<^verbatim>\<open>get_recent_transactions\<close>\<close>

text \<open>The dictionary appended to \<^verbatim>\<open>transactions\<close> for every withdraw call found.\<close>

record tx_data =
  td_hash :: string
  td_block_number :: int
  td_input :: string
  td_to :: string
  td_from :: string
  td_value :: int
  td_gas :: int
  td_gasPrice :: int
  td_timestamp :: int

definition max_blocks_per_request :: int where
  "max_blocks_per_request = 500"

text \<open>The sub-ranges \<^verbatim>\<open>(chunk_start, chunk_end)\<close> the chunking loop visits, in order.\<close>

definition chunk_ranges :: "int \<Rightarrow> int \<Rightarrow> (int \<times> int) list" where
  "chunk_ranges start_block current_block =
     map (\<lambda>chunk_start.
            (chunk_start, min (chunk_start + max_blocks_per_request - 1) current_block))
         (py_range start_block (current_block + 1) max_blocks_per_request)"

text \<open>
  The chunking loop: one \<^verbatim>\<open>get_logs\<close> request per sub-range, the answers appended to
  \<^verbatim>\<open>all_logs\<close>. A request that raises ends the loop with the exception. The first
  component is the list of requests issued, in order.
\<close>

fun collect_logs ::
  "web3 \<Rightarrow> string \<Rightarrow> (int \<times> int) list \<Rightarrow> event_log list \<Rightarrow> (int \<times> int) list \<times> (exn + event_log list)"
where
  "collect_logs w3 address [] all_logs = ([], Inr all_logs)"
| "collect_logs w3 address ((chunk_start, chunk_end) # rest) all_logs =
     (case eth_get_logs w3 chunk_start chunk_end address of
        Inl e \<Rightarrow> ([(chunk_start, chunk_end)], Inl e)
      | Inr chunk_logs \<Rightarrow>
          (let (issued, r) = collect_logs w3 address rest (all_logs @ chunk_logs)
           in ((chunk_start, chunk_end) # issued, r)))"

text \<open>\<^verbatim>\<open>datetime.fromtimestamp(seconds, timezone.utc)\<close>, in microseconds.\<close>

definition fromtimestamp :: "int \<Rightarrow> int" where
  "fromtimestamp seconds = seconds * 1000000"

text \<open>
  The body of the loop over \<^verbatim>\<open>tx_hashes\<close>: \<open>Inl\<close> when a request raised (logged, the
  hash is skipped), \<open>Inr None\<close> when the transaction does not call withdraw.
\<close>

definition check_transaction :: "runtime \<Rightarrow> web3 \<Rightarrow> string \<Rightarrow> exn + tx_data option" where
  "check_transaction rt w3 tx_hash =
     (case eth_get_transaction w3 tx_hash of
        Inl e \<Rightarrow> Inl e
      | Inr tx \<Rightarrow>
          if is_withdraw_function rt (ltx_input tx) then
            (case eth_get_block w3 (ltx_blockNumber tx) of
               Inl e \<Rightarrow> Inl e
             | Inr block \<Rightarrow>
                 Inr (Some \<lparr> td_hash = tx_hash,
                             td_block_number = ltx_blockNumber tx,
                             td_input = hex_of_bytes (ltx_input tx),
                             td_to = ltx_to tx,
                             td_from = ltx_from tx,
                             td_value = ltx_value tx,
                             td_gas = ltx_gas tx,
                             td_gasPrice = ltx_gasPrice tx,
                             td_timestamp = fromtimestamp (lb_timestamp block) \<rparr>))
          else Inr None)"

fun check_transactions :: "runtime \<Rightarrow> web3 \<Rightarrow> string list \<Rightarrow> tx_data list \<Rightarrow> tx_data list" where
  "check_transactions rt w3 [] transactions = transactions"
| "check_transactions rt w3 (tx_hash # rest) transactions =
     (case check_transaction rt w3 tx_hash of
        Inr (Some d) \<Rightarrow> check_transactions rt w3 rest (transactions @ [d])
      | _ \<Rightarrow> check_transactions rt w3 rest transactions)"

text \<open>\<^verbatim>\<open>list(set(log.transactionHash.hex() for log in all_logs))\<close>\<close>

definition unique_hashes :: "runtime \<Rightarrow> event_log list \<Rightarrow> string list" where
  "unique_hashes rt all_logs =
     py_list rt (py_set (map (\<lambda>l. hex_of_bytes (transactionHash l)) all_logs))"

text \<open>
  The inner \<^verbatim>\<open>try\<close> block. Whatever raises in it (the checksum conversion, a log
  request) is caught by its handler, which logs and leaves \<^verbatim>\<open>transactions\<close> empty.
  The result is the requests issued and \<^verbatim>\<open>transactions\<close>.
\<close>

definition scan_contract ::
  "runtime \<Rightarrow> web3 \<Rightarrow> string \<Rightarrow> int \<Rightarrow> int \<Rightarrow> (int \<times> int) list \<times> tx_data list"
where
  "scan_contract rt w3 contract_address start_block current_block =
     (case to_checksum_address rt contract_address of
        Inl e \<Rightarrow> ([], [])
      | Inr checksum_address \<Rightarrow>
          (case collect_logs w3 checksum_address (chunk_ranges start_block current_block) [] of
             (issued, Inl e) \<Rightarrow> (issued, [])
           | (issued, Inr all_logs) \<Rightarrow>
               (issued, check_transactions rt w3 (unique_hashes rt all_logs) [])))"

text \<open>
  \<^verbatim>\<open>get_recent_transactions(chain_name, start_block)\<close> on the connected instances
  \<open>web3_instances\<close> and the cursors \<open>last_processed_blocks\<close>. It returns what the call
  returns or raises, the cursors afterwards, and the log requests it issued.
  The lookup of the contract address stands before the outer \<^verbatim>\<open>try\<close>, so its
  \<^verbatim>\<open>KeyError\<close> leaves the function; everything later is caught.
\<close>

text \<open>
  The start of the range when the caller gives none: the block after the cursor, or the
  configured look-back on the first pass. \<open>None\<close> is the \<^verbatim>\<open>KeyError\<close> of a missing
  look-back, which the outer handler catches.
\<close>

definition determine_start_block ::
  "config \<Rightarrow> (string \<rightharpoonup> int) \<Rightarrow> string \<Rightarrow> int \<Rightarrow> int option \<Rightarrow> int option"
where
  "determine_start_block cfg last_processed_blocks chain_name current_block start_block =
     (case start_block of
        Some b \<Rightarrow> Some b
      | None \<Rightarrow>
          (case last_processed_blocks chain_name of
             Some cursor \<Rightarrow> Some (cursor + 1)
           | None \<Rightarrow>
               (case cfg_initial_block_range cfg of
                  None \<Rightarrow> None
                | Some r \<Rightarrow> Some (current_block - r))))"

definition get_recent_transactions ::
  "runtime \<Rightarrow> config \<Rightarrow> (string \<rightharpoonup> web3) \<Rightarrow> (string \<rightharpoonup> int) \<Rightarrow> string \<Rightarrow> int option
     \<Rightarrow> (exn + tx_data list) \<times> (string \<rightharpoonup> int) \<times> (int \<times> int) list"
where
  "get_recent_transactions rt cfg web3_instances last_processed_blocks chain_name start_block =
     (case web3_instances chain_name of
        None \<Rightarrow> (Inr [], last_processed_blocks, [])
      | Some w3 \<Rightarrow>
     (case cfg_exchange_contracts cfg chain_name of
        None \<Rightarrow> (Inl KeyError, last_processed_blocks, [])
      | Some contract_address \<Rightarrow>
     (case eth_block_number w3 of
        Inl e \<Rightarrow> (Inr [], last_processed_blocks, [])
      | Inr current_block \<Rightarrow>
     (case determine_start_block cfg last_processed_blocks chain_name current_block
             start_block of
        None \<Rightarrow> (Inr [], last_processed_blocks, [])
      | Some start_block \<Rightarrow>
          (let last_processed_blocks = last_processed_blocks(chain_name \<mapsto> current_block);
               (issued, transactions) =
                  scan_contract rt w3 contract_address start_block current_block
           in (Inr transactions, last_processed_blocks, issued))))))"

subsection \<open>\<^verbatim>\<open>get_transaction_receipt\<close>\<close>

record receipt_info =
  ri_hash :: string
  ri_status :: int
  ri_block_number :: int
  ri_gas_used :: int
  ri_failed :: bool

text \<open>\<open>None\<close> is Python's \<^verbatim>\<open>None\<close>: no instance for the chain, or the request raised.\<close>

definition get_transaction_receipt ::
  "(string \<rightharpoonup> web3) \<Rightarrow> string \<Rightarrow> string \<Rightarrow> receipt_info option"
where
  "get_transaction_receipt web3_instances chain_name tx_hash =
     (case web3_instances chain_name of
        None \<Rightarrow> None
      | Some w3 \<Rightarrow>
          (case eth_get_transaction_receipt w3 tx_hash of
             Inr receipt \<Rightarrow>
               Some \<lparr> ri_hash = tx_hash,
                      ri_status = lr_status receipt,
                      ri_block_number = lr_blockNumber receipt,
                      ri_gas_used = lr_gasUsed receipt,
                      ri_failed = (lr_status receipt = 0) \<rparr>
           | Inl TransactionNotFound \<Rightarrow> None
           | Inl e \<Rightarrow> None))"

subsection \<open>\<^verbatim>\<open>decode_withdraw_params\<close>\<close>

text \<open>
  The values of the decoded dictionary, and the dictionary as the list of its items in
  insertion order.
\<close>

datatype pyval = PInt int | PStr string

type_synonym params = "(string \<times> pyval) list"

text \<open>The \<^verbatim>\<open>try\<close> block of \<^verbatim>\<open>decode_withdraw_params\<close>: \<open>Inl\<close> is whatever it raises.\<close>

definition decode_withdraw_body :: "runtime \<Rightarrow> string \<Rightarrow> exn + params" where
  "decode_withdraw_body rt input_data =
     (let input_data = (if take 2 input_data = ''0x'' then drop 2 input_data else input_data)
      in case fromhex input_data of
           Inl e \<Rightarrow> Inl e
         | Inr input_bytes \<Rightarrow>
             (let params_data = drop 4 input_bytes
              in case codec_decode rt params_data of
                   Inl e \<Rightarrow> Inl e
                 | Inr (d0, d1, d2, d3, d4, d5) \<Rightarrow>
                     Inr [(''id'', PInt d0),
                          (''trader'', PStr d1),
                          (''amount'', PInt d2),
                          (''v'', PInt d3),
                          (''r'', PStr (hex_of_bytes d4)),
                          (''s'', PStr (hex_of_bytes d5))]))"

text \<open>The handler turns every exception into the empty dictionary.\<close>

definition decode_withdraw_params :: "runtime \<Rightarrow> string \<Rightarrow> params" where
  "decode_withdraw_params rt input_data =
     (case decode_withdraw_body rt input_data of Inl e \<Rightarrow> [] | Inr d \<Rightarrow> d)"

subsection \<open>\<^verbatim>\<open>create_transaction_object\<close>\<close>

text \<open>The \<^verbatim>\<open>Transaction\<close> dataclass.\<close>

record transaction =
  tx_hash :: string
  tx_block_number :: int
  tx_status :: bool
  tx_chain :: string
  tx_contract_address :: string
  tx_function_name :: string
  tx_decoded_params :: params
  tx_timestamp :: int
  tx_gas_used :: int
  tx_explorer_url :: string

text \<open>The lookup of the chain's explorer URL raises \<^verbatim>\<open>KeyError\<close> when it is not configured.\<close>

definition create_transaction_object ::
  "runtime \<Rightarrow> config \<Rightarrow> string \<Rightarrow> tx_data \<Rightarrow> receipt_info \<Rightarrow> exn + transaction"
where
  "create_transaction_object rt cfg chain_name d receipt =
     (case cfg_explorer_url cfg chain_name of
        None \<Rightarrow> Inl KeyError
      | Some explorer_url \<Rightarrow>
          (let decoded_params = decode_withdraw_params rt (td_input d)
           in Inr \<lparr> tx_hash = td_hash d,
                    tx_block_number = td_block_number d,
                    tx_status = (ri_status receipt = 1),
                    tx_chain = chain_name,
                    tx_contract_address = td_to d,
                    tx_function_name = ''withdraw'',
                    tx_decoded_params = decoded_params,
                    tx_timestamp = td_timestamp d,
                    tx_gas_used = ri_gas_used receipt,
                    tx_explorer_url = explorer_url @ ''/tx/'' @ td_hash d \<rparr>))"

section \<open>WithdrawalMonitor\<close>

text \<open>
  The mutable state of a \<^verbatim>\<open>WithdrawalMonitor\<close> and of the \<^verbatim>\<open>BlockchainMonitor\<close> it owns.
\<close>

record monitor_state =
  processed_transactions :: "string list"
  daily_transactions :: "string \<rightharpoonup> transaction list"
  last_processed_blocks :: "string \<rightharpoonup> int"

text \<open>\<^verbatim>\<open>daily_transactions.get(chain_name, [])\<close>\<close>

definition daily_get :: "(string \<rightharpoonup> transaction list) \<Rightarrow> string \<Rightarrow> transaction list" where
  "daily_get daily chain_name = (case daily chain_name of None \<Rightarrow> [] | Some ts \<Rightarrow> ts)"

subsection \<open>\<^verbatim>\<open>_load_processed_transactions\<close> and \<^verbatim>\<open>_save_processed_transactions\<close>\<close>

text \<open>
  What opening and parsing \<^verbatim>\<open>processed_transactions.json\<close> gives: no file, an error, or
  the value under the key \<^verbatim>\<open>processed_transactions\<close> (\<open>None\<close> when the key is absent).
\<close>

datatype processed_file = FileNotFound | Unreadable | Content "string list option"

text \<open>The set is empty before the load; both handlers leave it so.\<close>

definition load_processed_transactions :: "processed_file \<Rightarrow> string list" where
  "load_processed_transactions f =
     (case f of
        Content (Some xs) \<Rightarrow> py_set xs
      | Content None \<Rightarrow> py_set []
      | FileNotFound \<Rightarrow> []
      | Unreadable \<Rightarrow> [])"

text \<open>The file a successful save leaves behind.\<close>

definition save_processed_transactions :: "runtime \<Rightarrow> string list \<Rightarrow> processed_file" where
  "save_processed_transactions rt processed = Content (Some (py_list rt processed))"

subsection \<open>\<^verbatim>\<open>monitor_withdrawals\<close>\<close>

text \<open>
  The state threaded through a pass: the monitor's state, \<^verbatim>\<open>all_transactions\<close>, and the
  transactions handed to \<^verbatim>\<open>send_failed_withdrawal_alert\<close>, in order. What the notifier
  returns or raises is logged and changes nothing here.
\<close>

type_synonym pass_state = "monitor_state \<times> transaction list \<times> transaction list"

text \<open>
  The loop over \<^verbatim>\<open>recent_transactions\<close> of one chain. An exception of
  \<^verbatim>\<open>create_transaction_object\<close> leaves the loop for the handler of the chain, which logs
  it and goes on to the next chain; what was done before stays done.
\<close>

fun process_transactions ::
  "runtime \<Rightarrow> config \<Rightarrow> (string \<rightharpoonup> web3) \<Rightarrow> string \<Rightarrow> tx_data list \<Rightarrow> pass_state \<Rightarrow> pass_state"
where
  "process_transactions rt cfg web3_instances chain_name [] ps = ps"
| "process_transactions rt cfg web3_instances chain_name (d # rest) (st, all_transactions, alerts) =
     (if td_hash d \<in> set (processed_transactions st) then
        process_transactions rt cfg web3_instances chain_name rest (st, all_transactions, alerts)
      else
        case get_transaction_receipt web3_instances chain_name (td_hash d) of
          None \<Rightarrow>
            process_transactions rt cfg web3_instances chain_name rest (st, all_transactions, alerts)
        | Some receipt \<Rightarrow>
            (case create_transaction_object rt cfg chain_name d receipt of
               Inl e \<Rightarrow> (st, all_transactions, alerts)
             | Inr t \<Rightarrow>
                 (let all_transactions = all_transactions @ [t];
                      st = st \<lparr> processed_transactions :=
                                  set_add (td_hash d) (processed_transactions st) \<rparr>;
                      chain_list = daily_get (daily_transactions st) chain_name;
                      st = st \<lparr> daily_transactions :=
                                  (daily_transactions st)(chain_name \<mapsto> chain_list @ [t]) \<rparr>;
                      alerts = (if \<not> tx_status t then alerts @ [t] else alerts)
                  in process_transactions rt cfg web3_instances chain_name rest
                       (st, all_transactions, alerts))))"

text \<open>One iteration of the loop over the configured chains.\<close>

definition monitor_chain ::
  "runtime \<Rightarrow> config \<Rightarrow> (string \<rightharpoonup> web3) \<Rightarrow> string \<Rightarrow> pass_state \<Rightarrow> pass_state"
where
  "monitor_chain rt cfg web3_instances chain_name ps =
     (case ps of (st, all_transactions, alerts) \<Rightarrow>
        (case get_recent_transactions rt cfg web3_instances (last_processed_blocks st)
                chain_name None of
           (Inl e, cursors, issued) \<Rightarrow>
             (st \<lparr> last_processed_blocks := cursors \<rparr>, all_transactions, alerts)
         | (Inr recent_transactions, cursors, issued) \<Rightarrow>
             process_transactions rt cfg web3_instances chain_name recent_transactions
               (st \<lparr> last_processed_blocks := cursors \<rparr>, all_transactions, alerts)))"

text \<open>
  \<^verbatim>\<open>monitor_withdrawals\<close>: the new state, the returned \<^verbatim>\<open>all_transactions\<close>, and the alerts
  dispatched. The two saves at its end write files and leave the state as it is.
\<close>

definition monitor_withdrawals ::
  "runtime \<Rightarrow> config \<Rightarrow> (string \<rightharpoonup> web3) \<Rightarrow> monitor_state \<Rightarrow> pass_state"
where
  "monitor_withdrawals rt cfg web3_instances st =
     fold (monitor_chain rt cfg web3_instances) (cfg_chains cfg) (st, [], [])"

text \<open>Successive passes, each against the ledgers as they are at that time.\<close>

fun monitor_passes ::
  "runtime \<Rightarrow> config \<Rightarrow> (string \<rightharpoonup> web3) list \<Rightarrow> monitor_state \<Rightarrow> pass_state"
where
  "monitor_passes rt cfg [] st = (st, [], [])"
| "monitor_passes rt cfg (web3_instances # later) st =
     (case monitor_withdrawals rt cfg web3_instances st of
        (st1, new1, alerts1) \<Rightarrow>
          (case monitor_passes rt cfg later st1 of
             (st2, new2, alerts2) \<Rightarrow> (st2, new1 @ new2, alerts1 @ alerts2)))"

subsection \<open>\<^verbatim>\<open>get_daily_statistics_for_period\<close>\<close>

record success_entry =
  se_hash :: string
  se_block_number :: int
  se_timestamp :: int
  se_decoded_params :: params

record failed_entry =
  fe_hash :: string
  fe_block_number :: int
  fe_timestamp :: int
  fe_decoded_params :: params
  fe_explorer_url :: string

record chain_stats =
  successful_withdrawals :: nat
  failed_withdrawals :: nat
  total_withdrawals :: nat
  successful_transactions :: "success_entry list"
  failed_transactions :: "failed_entry list"

definition period_stats :: "transaction list \<Rightarrow> int \<Rightarrow> int \<Rightarrow> chain_stats" where
  "period_stats chain_transactions start_time end_time =
     (let period_transactions =
            filter (\<lambda>t. start_time \<le> tx_timestamp t \<and> tx_timestamp t \<le> end_time)
              chain_transactions;
          successful = filter (\<lambda>t. tx_status t) period_transactions;
          failed = filter (\<lambda>t. \<not> tx_status t) period_transactions
      in \<lparr> successful_withdrawals = length successful,
           failed_withdrawals = length failed,
           total_withdrawals = length period_transactions,
           successful_transactions =
             map (\<lambda>t. \<lparr> se_hash = tx_hash t, se_block_number = tx_block_number t,
                        se_timestamp = tx_timestamp t,
                        se_decoded_params = tx_decoded_params t \<rparr>) successful,
           failed_transactions =
             map (\<lambda>t. \<lparr> fe_hash = tx_hash t, fe_block_number = tx_block_number t,
                        fe_timestamp = tx_timestamp t,
                        fe_decoded_params = tx_decoded_params t,
                        fe_explorer_url = tx_explorer_url t \<rparr>) failed \<rparr>)"

text \<open>The loop over the configured chains fills the dictionary \<^verbatim>\<open>stats\<close>.\<close>

definition get_daily_statistics_for_period ::
  "config \<Rightarrow> monitor_state \<Rightarrow> int \<Rightarrow> int \<Rightarrow> (string \<rightharpoonup> chain_stats)"
where
  "get_daily_statistics_for_period cfg st start_time end_time =
     fold (\<lambda>chain_name stats.
             let chain_transactions = daily_get (daily_transactions st) chain_name
             in stats(chain_name \<mapsto> period_stats chain_transactions start_time end_time))
          (cfg_chains cfg) Map.empty"

subsection \<open>\<^verbatim>\<open>cleanup_old_data\<close>\<close>

text \<open>\<^verbatim>\<open>timedelta(days=n)\<close> in microseconds.\<close>

definition timedelta_days :: "int \<Rightarrow> int" where
  "timedelta_days n = n * 86400000000"

text \<open>
  The first loop: every chain keeps the transactions younger than the cutoff, and a
  chain left with none is deleted.
\<close>

definition cleanup_daily ::
  "int \<Rightarrow> (string \<rightharpoonup> transaction list) \<Rightarrow> (string \<rightharpoonup> transaction list)"
where
  "cleanup_daily cutoff_time daily =
     (\<lambda>chain_name.
        case daily chain_name of
          None \<Rightarrow> None
        | Some ts \<Rightarrow>
            (let kept = filter (\<lambda>t. tx_timestamp t > cutoff_time) ts
             in if kept = [] then None else Some kept))"

text \<open>The bound on the processed set: \<^verbatim>\<open>list(...)[-5000:]\<close> of more than 10000 members.\<close>

definition cleanup_processed :: "runtime \<Rightarrow> string list \<Rightarrow> string list" where
  "cleanup_processed rt processed =
     (if length processed > 10000
      then py_set (drop (length (py_list rt processed) - 5000) (py_list rt processed))
      else processed)"

text \<open>\<^verbatim>\<open>cleanup_old_data(days_to_keep)\<close> at the clock reading \<open>now\<close>.\<close>

definition cleanup_old_data :: "runtime \<Rightarrow> int \<Rightarrow> int \<Rightarrow> monitor_state \<Rightarrow> monitor_state" where
  "cleanup_old_data rt now days_to_keep st =
     (let cutoff_time = now - timedelta_days days_to_keep
      in st \<lparr> daily_transactions := cleanup_daily cutoff_time (daily_transactions st),
              processed_transactions := cleanup_processed rt (processed_transactions st) \<rparr>)"

section \<open>Specification vocabulary and example ledgers\<close>

text \<open>
  \<open>appends st new st'\<close>: between \<open>st\<close> and \<open>st'\<close> exactly the events \<open>new\<close> were recorded.
  Their hashes are pairwise different and were not processed in \<open>st\<close>, they are the
  hashes the processed set gained, and every chain's ledger grew by its own events of
  \<open>new\<close>, in order.
\<close>

definition appends :: "monitor_state \<Rightarrow> transaction list \<Rightarrow> monitor_state \<Rightarrow> bool" where
  "appends st new st' \<longleftrightarrow>
     distinct (map tx_hash new) \<and>
     set (map tx_hash new) \<inter> set (processed_transactions st) = {} \<and>
     set (processed_transactions st') = set (processed_transactions st) \<union> set (map tx_hash new) \<and>
     (\<forall>c. daily_get (daily_transactions st') c =
            daily_get (daily_transactions st) c @ filter (\<lambda>t. tx_chain t = c) new)"

text \<open>
  What the loop over the candidate hashes appends for one hash: the transaction's
  dictionary when every request answered and the input calls withdraw, nothing otherwise.
\<close>

definition resolved :: "runtime \<Rightarrow> web3 \<Rightarrow> string \<Rightarrow> tx_data option" where
  "resolved rt w3 h = (case check_transaction rt w3 h of Inr (Some d) \<Rightarrow> Some d | _ \<Rightarrow> None)"

text \<open>
  A small runtime: a stand-in digest whose first four bytes are \<^verbatim>\<open>deadbeef\<close>, a decoder
  for six one-byte parameters, and a set order that follows the order of insertion.
\<close>

definition example_runtime :: runtime where
  "example_runtime =
     \<lparr> keccak_text = (\<lambda>_. [0xde, 0xad, 0xbe, 0xef, 0x01, 0x02]),
       to_checksum_address = (\<lambda>a. if a = [] then Inl ValueError else Inr a),
       codec_decode = (\<lambda>bs. case bs of
                          [a, b, c, d, e, f] \<Rightarrow> Inr (uint a, ''0xT'', uint c, uint d, [e], [f])
                        | _ \<Rightarrow> Inl ValueError),
       set_slot = (\<lambda>_. 0) \<rparr>"

definition example_config :: config where
  "example_config =
     \<lparr> cfg_chains = [''ethereum''],
       cfg_explorer_url = [''ethereum'' \<mapsto> ''https://etherscan.io''],
       cfg_exchange_contracts = [''ethereum'' \<mapsto> ''0xC0''],
       cfg_initial_block_range = Some 1100 \<rparr>"

definition example_input :: "byte list" where
  "example_input = [0xde, 0xad, 0xbe, 0xef, 1, 2, 3, 4, 5, 6]"

text \<open>
  A ledger at height 1199. Block 150 holds one log of transaction \<^verbatim>\<open>aa\<close>, block 700 two
  logs of transaction \<^verbatim>\<open>bb\<close>. Both transactions call withdraw; \<^verbatim>\<open>aa\<close> reverted.
\<close>

definition example_web3 :: web3 where
  "example_web3 =
     \<lparr> eth_block_number = Inr 1199,
       eth_get_logs = (\<lambda>a b address.
          Inr ((if a \<le> 150 \<and> 150 \<le> b then [\<lparr> transactionHash = [0xaa] \<rparr>] else []) @
               (if a \<le> 700 \<and> 700 \<le> b
                then [\<lparr> transactionHash = [0xbb] \<rparr>, \<lparr> transactionHash = [0xbb] \<rparr>] else []))),
       eth_get_transaction = (\<lambda>h.
          Inr \<lparr> ltx_input = example_input, ltx_blockNumber = (if h = ''aa'' then 150 else 700),
                ltx_to = ''0xC0'', ltx_from = ''0xF0'', ltx_value = 0, ltx_gas = 21000,
                ltx_gasPrice = 1 \<rparr>),
       eth_get_block = (\<lambda>n. Inr \<lparr> lb_timestamp = n \<rparr>),
       eth_get_transaction_receipt = (\<lambda>h.
          Inr \<lparr> lr_status = (if h = ''aa'' then 0 else 1), lr_blockNumber = 150,
                lr_gasUsed = 20000 \<rparr>) \<rparr>"

text \<open>The same ledger with one request failing: a log request, a transaction, the height.\<close>

definition failing_logs_web3 :: web3 where
  "failing_logs_web3 =
     example_web3 \<lparr> eth_get_logs := (\<lambda>a b address.
        if a = 600 then Inl RpcError else eth_get_logs example_web3 a b address) \<rparr>"

definition failing_transaction_web3 :: web3 where
  "failing_transaction_web3 =
     example_web3 \<lparr> eth_get_transaction := (\<lambda>h.
        if h = ''aa'' then Inl RpcError else eth_get_transaction example_web3 h) \<rparr>"

definition failing_height_web3 :: web3 where
  "failing_height_web3 = example_web3 \<lparr> eth_block_number := Inl RpcError \<rparr>"

text \<open>An event on the example chain with the given hash, status and timestamp.\<close>

definition example_event :: "string \<Rightarrow> bool \<Rightarrow> int \<Rightarrow> transaction" where
  "example_event h ok time =
     \<lparr> tx_hash = h, tx_block_number = 150, tx_status = ok, tx_chain = ''ethereum'',
       tx_contract_address = ''0xC0'', tx_function_name = ''withdraw'',
       tx_decoded_params = [], tx_timestamp = time, tx_gas_used = 20000,
       tx_explorer_url = ''https://etherscan.io/tx/'' @ h \<rparr>"

text \<open>A monitor that has scanned up to block 99 and processed nothing.\<close>

definition example_state :: monitor_state where
  "example_state =
     \<lparr> processed_transactions = [], daily_transactions = Map.empty,
       last_processed_blocks = [''ethereum'' \<mapsto> 99] \<rparr>"

text \<open>
  A ledger of three events, read at the clock \<open>example_now\<close>: the first is exactly seven
  days old, the second a microsecond younger, the third a day old.
\<close>

definition example_now :: int where
  "example_now = 1700000000000000"

definition example_ledger_state :: monitor_state where
  "example_ledger_state =
     \<lparr> processed_transactions = [''aa'', ''bb'', ''cc''],
       daily_transactions =
         [''ethereum'' \<mapsto>
            [example_event ''aa'' False (example_now - timedelta_days 7),
             example_event ''bb'' True (example_now - timedelta_days 7 + 1),
             example_event ''cc'' True (example_now - timedelta_days 1)]],
       last_processed_blocks = [''ethereum'' \<mapsto> 99] \<rparr>"

text \<open>
  The monitor after a restart: the processed set is read from a file that lists \<^verbatim>\<open>aa\<close>,
  the ledger holds the event of \<^verbatim>\<open>aa\<close>, and there is no cursor yet.
\<close>

definition restarted_state :: monitor_state where
  "restarted_state =
     \<lparr> processed_transactions = load_processed_transactions (Content (Some [''aa''])),
       daily_transactions = [''ethereum'' \<mapsto> [example_event ''aa'' False 150000000]],
       last_processed_blocks = Map.empty \<rparr>"

text \<open>
  A processed set that overflows: 10001 different hashes, added in the order listed, in
  a process whose sets iterate in the reverse of that order (a longer hash has the
  smaller slot).
\<close>

definition example_hashes :: "string list" where
  "example_hashes = map (\<lambda>n. replicate (Suc n) CHR ''a'') [0 ..< 10001]"

definition reversing_runtime :: runtime where
  "reversing_runtime = example_runtime \<lparr> set_slot := (\<lambda>h. 10001 - length h) \<rparr>"

section \<open>Properties\<close>

subsection \<open>The chunked scan\<close>

lemma py_range_cover:
  "0 < s \<Longrightarrow> concat (map (\<lambda>a. [a .. min (a + s - 1) (b - 1)]) (py_range a b s)) = [a .. b - 1]"
proof (induction a b s rule: py_range.induct)
  case (1 a b s)
  show ?case
  proof (cases "a < b")
    case False
    then show ?thesis by (simp add: py_range.simps [of a b s])
  next
    case True
    have ih: "concat (map (\<lambda>a. [a .. min (a + s - 1) (b - 1)]) (py_range (a + s) b s)) = [a + s .. b - 1]"
      using "1.IH" "1.prems" True by simp
    show ?thesis
    proof (cases "a + s \<le> b - 1")
      case True
      then have "[a .. b - 1] = [a .. a + s - 1] @ [a + s .. b - 1]"
        using "1.prems" upto_split1 [of a "a + s" "b - 1"] by simp
      then show ?thesis
        using ih \<open>a < b\<close> "1.prems" True by (simp add: py_range.simps [of a b s] min_def)
    next
      case False
      then have e: "py_range (a + s) b s = []" and m: "min (a + s - 1) (b - 1) = b - 1"
        by (simp_all add: py_range.simps [of "a + s" b s])
      show ?thesis
        using \<open>a < b\<close> "1.prems" by (simp add: py_range.simps [of a b s] e m)
    qed
  qed
qed

lemma py_range_bounds:
  "x \<in> set (py_range a b s) \<Longrightarrow> a \<le> x \<and> x < b"
proof (induction a b s rule: py_range.induct)
  case (1 a b s)
  then show ?case
    by (cases "0 < s \<and> a < b") (auto simp: py_range.simps [of a b s])
qed

lemma chunk_ranges_cover:
  "concat (map (\<lambda>(a, b). [a .. b]) (chunk_ranges from_height to_height)) = [from_height .. to_height]"
  using py_range_cover [where s = 500 and a = from_height and b = "to_height + 1"]
  by (simp add: chunk_ranges_def max_blocks_per_request_def comp_def)

lemma chunk_ranges_width:
  "(a, b) \<in> set (chunk_ranges from_height to_height) \<Longrightarrow> a \<le> b \<and> b - a + 1 \<le> 500"
  using py_range_bounds [where x = a and a = from_height and b = "to_height + 1" and s = 500]
  by (auto simp: chunk_ranges_def max_blocks_per_request_def)

lemma collect_logs_all_ok:
  "\<forall>(a, b) \<in> set chunks. \<not> isl (eth_get_logs w3 a b address) \<Longrightarrow>
     fst (collect_logs w3 address chunks acc) = chunks \<and> \<not> isl (snd (collect_logs w3 address chunks acc))"
proof (induction chunks arbitrary: acc)
  case Nil
  show ?case by simp
next
  case (Cons c chunks)
  obtain a b where c: "c = (a, b)" by (cases c)
  then obtain logs where l: "eth_get_logs w3 a b address = Inr logs"
    using Cons.prems by (cases "eth_get_logs w3 a b address") auto
  have "fst (collect_logs w3 address chunks (acc @ logs)) = chunks \<and>
        \<not> isl (snd (collect_logs w3 address chunks (acc @ logs)))"
    using Cons.IH Cons.prems by simp
  then show ?case using c l by (simp add: split_beta)
qed

lemma collect_logs_first_failure:
  "\<forall>(x, y) \<in> set before. \<not> isl (eth_get_logs w3 x y address) \<Longrightarrow>
   eth_get_logs w3 a b address = Inl e \<Longrightarrow>
     collect_logs w3 address (before @ (a, b) # after) acc = (before @ [(a, b)], Inl e)"
proof (induction before arbitrary: acc)
  case Nil
  then show ?case by simp
next
  case (Cons c before)
  obtain x y where c: "c = (x, y)" by (cases c)
  then obtain logs where l: "eth_get_logs w3 x y address = Inr logs"
    using Cons.prems by (cases "eth_get_logs w3 x y address") auto
  have "collect_logs w3 address (before @ (a, b) # after) (acc @ logs) = (before @ [(a, b)], Inl e)"
    using Cons.IH Cons.prems by simp
  then show ?case using c l by simp
qed

text \<open>
  C6. Scanning the block range 100 to 1199 with the sub-range limit of 500 issues exactly
  the three log requests for 100 to 599, 600 to 1099 and 1100 to 1199. In general a scan
  from \<open>from_height\<close> to the current height whose log requests all answer issues one
  request per sub-range of \<open>chunk_ranges\<close>; these sub-ranges, laid end to end, are the
  blocks from \<open>from_height\<close> to \<open>to_height\<close> with none missing or repeated, and none is
  empty or wider than 500 blocks.
\<close>

theorem chunked_scan_ranges:
  assumes "web3_instances chain_name = Some w3"
    and "cfg_exchange_contracts cfg chain_name = Some contract_address"
    and "eth_block_number w3 = Inr to_height"
    and "to_checksum_address rt contract_address = Inr address"
    and "\<forall>a b. \<not> isl (eth_get_logs w3 a b address)"
  shows "snd (snd (get_recent_transactions rt cfg web3_instances cursors chain_name
                     (Some from_height))) = chunk_ranges from_height to_height
       \<and> concat (map (\<lambda>(a, b). [a .. b]) (chunk_ranges from_height to_height))
           = [from_height .. to_height]
       \<and> (\<forall>(a, b) \<in> set (chunk_ranges from_height to_height). a \<le> b \<and> b - a + 1 \<le> 500)
       \<and> chunk_ranges 100 1199 = [(100, 599), (600, 1099), (1100, 1199)]"
proof -
  have ok: "\<forall>(a, b) \<in> set (chunk_ranges from_height to_height). \<not> isl (eth_get_logs w3 a b address)"
    using assms(5) by simp
  obtain issued r where cl: "collect_logs w3 address (chunk_ranges from_height to_height) [] = (issued, r)"
    by (cases "collect_logs w3 address (chunk_ranges from_height to_height) []")
  have i: "issued = chunk_ranges from_height to_height" and r: "\<not> isl r"
    using collect_logs_all_ok [OF ok, of "[]"] cl by simp_all
  obtain logs where "r = Inr logs" using r by (cases r) auto
  then have "snd (snd (get_recent_transactions rt cfg web3_instances cursors chain_name
                     (Some from_height))) = chunk_ranges from_height to_height"
    using assms(1-4) cl i
    by (simp add: get_recent_transactions_def determine_start_block_def scan_contract_def)
  moreover have "chunk_ranges 100 1199 = [(100, 599), (600, 1099), (1100, 1199)]"
    by (simp add: chunk_ranges_def max_blocks_per_request_def py_range.simps)
  ultimately show ?thesis
    using chunk_ranges_cover chunk_ranges_width by blast
qed

theorem chunked_scan_ranges_witness:
  "snd (snd (get_recent_transactions example_runtime example_config
               [''ethereum'' \<mapsto> example_web3] Map.empty ''ethereum'' (Some 100)))
     = [(100, 599), (600, 1099), (1100, 1199)]
   \<and> concat (map (\<lambda>(a, b). [a .. b]) (chunk_ranges 100 1199)) = [100 .. 1199]"
proof -
  have h1: "[''ethereum'' \<mapsto> example_web3] ''ethereum'' = Some example_web3" by simp
  have h2: "cfg_exchange_contracts example_config ''ethereum'' = Some ''0xC0''"
    by (simp add: example_config_def)
  have h3: "eth_block_number example_web3 = Inr 1199" by (simp add: example_web3_def)
  have h4: "to_checksum_address example_runtime ''0xC0'' = Inr ''0xC0''"
    by (simp add: example_runtime_def)
  have h5: "\<forall>a b. \<not> isl (eth_get_logs example_web3 a b ''0xC0'')"
    by (simp add: example_web3_def)
  show ?thesis
    using chunked_scan_ranges [where web3_instances = "[''ethereum'' \<mapsto> example_web3]"
        and chain_name = "''ethereum''" and cfg = example_config and rt = example_runtime
        and cursors = Map.empty and from_height = 100, OF h1 h2 h3 h4 h5]
    by simp
qed

subsection \<open>The function matcher\<close>

text \<open>
  C7. \<open>is_withdraw_function\<close> is false for every input shorter than four bytes, and it is
  true exactly when the input has at least four bytes and its leading four bytes are the
  leading four bytes of the digest of the canonical withdraw signature.
\<close>

theorem is_withdraw_function_selector:
  "(length input_data < 4 \<longrightarrow> \<not> is_withdraw_function rt input_data) \<and>
   (is_withdraw_function rt input_data \<longleftrightarrow>
      (4 \<le> length input_data \<and>
       take 4 input_data = take 4 (keccak_text rt withdraw_signature)))"
  by (auto simp: is_withdraw_function_def Let_def)

theorem is_withdraw_function_selector_witness:
  "length [0xde, 0xad, 0xbe :: byte] < 4
   \<and> \<not> is_withdraw_function example_runtime [0xde, 0xad, 0xbe]
   \<and> is_withdraw_function example_runtime example_input
   \<and> \<not> is_withdraw_function example_runtime [0xde, 0xad, 0xbe, 0xee, 1]"
  using is_withdraw_function_selector [of "[0xde, 0xad, 0xbe]" example_runtime]
    is_withdraw_function_selector [of example_input example_runtime]
    is_withdraw_function_selector [of "[0xde, 0xad, 0xbe, 0xee, 1]" example_runtime]
  by (simp add: example_runtime_def example_input_def)

subsection \<open>Parameter decoding\<close>

text \<open>
  C10. \<open>decode_withdraw_params\<close> is total: whatever its body raises, it returns the empty
  dictionary, and otherwise what the body built. Its result is therefore either empty or
  the dictionary of all six parameters \<^verbatim>\<open>id\<close>, \<^verbatim>\<open>trader\<close>, \<^verbatim>\<open>amount\<close>, \<^verbatim>\<open>v\<close>, \<^verbatim>\<open>r\<close>, \<^verbatim>\<open>s\<close>;
  no partly filled dictionary is returned.
\<close>

theorem decode_withdraw_params_all_or_nothing:
  "(case decode_withdraw_body rt input_data of
      Inl e \<Rightarrow> decode_withdraw_params rt input_data = []
    | Inr d \<Rightarrow> decode_withdraw_params rt input_data = d)
   \<and> (decode_withdraw_params rt input_data = []
      \<or> (\<exists>d0 d1 d2 d3 d4 d5. decode_withdraw_params rt input_data =
            [(''id'', PInt d0), (''trader'', PStr d1), (''amount'', PInt d2),
             (''v'', PInt d3), (''r'', PStr d4), (''s'', PStr d5)]))"
  by (auto simp: decode_withdraw_params_def decode_withdraw_body_def Let_def
           split: sum.splits prod.splits)

lemma decode_withdraw_params_examples:
  "decode_withdraw_params example_runtime ''0xdeadbeef010203040506'' =
     [(''id'', PInt 1), (''trader'', PStr ''0xT''), (''amount'', PInt 3),
      (''v'', PInt 4), (''r'', PStr ''05''), (''s'', PStr ''06'')]"
  "decode_withdraw_params example_runtime ''0xdeadbeef0102'' = []"
  "decode_withdraw_params example_runtime ''0xdeadbeefzz'' = []"
  "decode_withdraw_params example_runtime ''deadbee'' = []"
  by (simp_all add: decode_withdraw_params_def decode_withdraw_body_def example_runtime_def
        is_space_def digit_val_def hex_of_bytes_def hex_digit_def)

subsection \<open>Sets and recorded events\<close>

lemma set_set_add [simp]: "set (set_add x s) = insert x (set s)"
  by (auto simp: set_add_def)

lemma distinct_set_add [simp]: "distinct (set_add x s) = distinct s"
  by (auto simp: set_add_def)

lemma fold_set_add: "set (fold set_add xs acc) = set acc \<union> set xs \<and> (distinct acc \<longrightarrow> distinct (fold set_add xs acc))"
  by (induction xs arbitrary: acc) auto

lemma set_py_set [simp]: "set (py_set xs) = set xs"
  by (simp add: py_set_def fold_set_add)

lemma distinct_py_set [simp]: "distinct (py_set xs)"
  by (simp add: py_set_def fold_set_add)

lemma set_py_list [simp]: "set (py_list rt s) = set s"
  by (simp add: py_list_def)

lemma appends_refl: "appends st [] st"
  by (simp add: appends_def)

lemma appends_cursor [simp]:
  "appends (st \<lparr> last_processed_blocks := c \<rparr>) new st' = appends st new st'"
  "appends st new (st' \<lparr> last_processed_blocks := c \<rparr>) = appends st new st'"
  by (simp_all add: appends_def)

lemma appends_trans:
  assumes "appends st n1 st1" and "appends st1 n2 st2"
  shows "appends st (n1 @ n2) st2"
  using assms unfolding appends_def by (simp; blast)

lemma create_transaction_object_fields:
  "create_transaction_object rt cfg chain_name d receipt = Inr t \<Longrightarrow>
     tx_hash t = td_hash d \<and> tx_chain t = chain_name \<and> tx_status t = (ri_status receipt = 1)"
  by (auto simp: create_transaction_object_def Let_def split: option.splits)

lemma appends_one:
  assumes "tx_hash t \<notin> set (processed_transactions st)"
  shows "appends st [t]
           (st \<lparr> processed_transactions := set_add (tx_hash t) (processed_transactions st),
                 daily_transactions := (daily_transactions st)
                    (tx_chain t \<mapsto> daily_get (daily_transactions st) (tx_chain t) @ [t]) \<rparr>)"
  using assms by (auto simp: appends_def daily_get_def)

lemma process_transactions_appends:
  "\<exists>st' new. process_transactions rt cfg w c ds (st, all_tx, al) =
       (st', all_tx @ new, al @ filter (\<lambda>t. \<not> tx_status t) new) \<and> appends st new st'
       \<and> last_processed_blocks st' = last_processed_blocks st"
proof (induction ds arbitrary: st all_tx al)
  case Nil
  show ?case by (simp add: appends_refl)
next
  case (Cons d rest)
  show ?case
  proof (cases "td_hash d \<in> set (processed_transactions st)")
    case True
    then show ?thesis using Cons.IH [of st all_tx al] by simp
  next
    case False
    note fresh = this
    show ?thesis
    proof (cases "get_transaction_receipt w c (td_hash d)")
      case None
      then show ?thesis using fresh Cons.IH [of st all_tx al] by simp
    next
      case (Some receipt)
      show ?thesis
      proof (cases "create_transaction_object rt cfg c d receipt")
        case (Inl e)
        then show ?thesis using fresh Some by (simp add: appends_refl)
      next
        case (Inr t)
        then have f: "tx_hash t = td_hash d" "tx_chain t = c"
          using create_transaction_object_fields by blast+
        define st1 where "st1 = st \<lparr> processed_transactions := set_add (tx_hash t) (processed_transactions st),
                 daily_transactions := (daily_transactions st)
                    (tx_chain t \<mapsto> daily_get (daily_transactions st) (tx_chain t) @ [t]) \<rparr>"
        have a1: "appends st [t] st1"
          unfolding st1_def using fresh f appends_one [of t st] by simp
        have c1: "last_processed_blocks st1 = last_processed_blocks st"
          by (simp add: st1_def)
        obtain st' new where
          r: "process_transactions rt cfg w c rest
                (st1, all_tx @ [t], if \<not> tx_status t then al @ [t] else al) =
              (st', (all_tx @ [t]) @ new,
               (if \<not> tx_status t then al @ [t] else al) @ filter (\<lambda>t. \<not> tx_status t) new)"
          and a2: "appends st1 new st'"
          and c2: "last_processed_blocks st' = last_processed_blocks st1"
          using Cons.IH [of st1 "all_tx @ [t]" "if \<not> tx_status t then al @ [t] else al"] by blast
        have "process_transactions rt cfg w c (d # rest) (st, all_tx, al) =
              process_transactions rt cfg w c rest
                (st1, all_tx @ [t], if \<not> tx_status t then al @ [t] else al)"
          using fresh Some Inr f by (simp add: st1_def Let_def)
        then have "process_transactions rt cfg w c (d # rest) (st, all_tx, al) =
              (st', all_tx @ ([t] @ new), al @ filter (\<lambda>t. \<not> tx_status t) ([t] @ new))"
          using r by simp
        moreover have "appends st ([t] @ new) st'"
          using a1 a2 by (rule appends_trans)
        ultimately show ?thesis using c1 c2 by metis
      qed
    qed
  qed
qed

lemma monitor_chain_appends:
  "\<exists>st' new. monitor_chain rt cfg w c (st, all_tx, al) =
       (st', all_tx @ new, al @ filter (\<lambda>t. \<not> tx_status t) new) \<and> appends st new st'"
proof (cases "get_recent_transactions rt cfg w (last_processed_blocks st) c None")
  case (fields r cursors issued)
  show ?thesis
  proof (cases r)
    case (Inl e)
    then show ?thesis using fields by (simp add: monitor_chain_def appends_refl)
  next
    case (Inr ds)
    obtain st' new where
      "process_transactions rt cfg w c ds (st \<lparr> last_processed_blocks := cursors \<rparr>, all_tx, al) =
         (st', all_tx @ new, al @ filter (\<lambda>t. \<not> tx_status t) new)"
      and "appends (st \<lparr> last_processed_blocks := cursors \<rparr>) new st'"
      using process_transactions_appends by blast
    then show ?thesis using fields Inr by (simp add: monitor_chain_def)
  qed
qed

lemma fold_monitor_chain_appends:
  "\<exists>st' new. fold (monitor_chain rt cfg w) cs (st, all_tx, al) =
       (st', all_tx @ new, al @ filter (\<lambda>t. \<not> tx_status t) new) \<and> appends st new st'"
proof (induction cs arbitrary: st all_tx al)
  case Nil
  show ?case by (simp add: appends_refl)
next
  case (Cons c cs)
  obtain st1 n1 where
    s1: "monitor_chain rt cfg w c (st, all_tx, al) =
       (st1, all_tx @ n1, al @ filter (\<lambda>t. \<not> tx_status t) n1)" and a1: "appends st n1 st1"
    using monitor_chain_appends by blast
  obtain st2 n2 where
    s2: "fold (monitor_chain rt cfg w) cs (st1, all_tx @ n1, al @ filter (\<lambda>t. \<not> tx_status t) n1) =
       (st2, (all_tx @ n1) @ n2, (al @ filter (\<lambda>t. \<not> tx_status t) n1) @ filter (\<lambda>t. \<not> tx_status t) n2)"
    and a2: "appends st1 n2 st2"
    using Cons.IH by blast
  have "fold (monitor_chain rt cfg w) (c # cs) (st, all_tx, al) =
       (st2, all_tx @ (n1 @ n2), al @ filter (\<lambda>t. \<not> tx_status t) (n1 @ n2))"
    using s1 s2 by simp
  moreover have "appends st (n1 @ n2) st2" using a1 a2 by (rule appends_trans)
  ultimately show ?case by blast
qed

lemma monitor_withdrawals_appends:
  "\<exists>st' new. monitor_withdrawals rt cfg w st = (st', new, filter (\<lambda>t. \<not> tx_status t) new)
      \<and> appends st new st'"
  using fold_monitor_chain_appends [of rt cfg w "cfg_chains cfg" st "[]" "[]"]
  by (simp add: monitor_withdrawals_def)

lemma monitor_passes_appends:
  "\<exists>st' new. monitor_passes rt cfg ws st = (st', new, filter (\<lambda>t. \<not> tx_status t) new)
      \<and> appends st new st'"
proof (induction ws arbitrary: st)
  case Nil
  show ?case by (simp add: appends_refl)
next
  case (Cons w ws)
  obtain st1 n1 where s1: "monitor_withdrawals rt cfg w st = (st1, n1, filter (\<lambda>t. \<not> tx_status t) n1)"
    and a1: "appends st n1 st1"
    using monitor_withdrawals_appends by blast
  obtain st2 n2 where s2: "monitor_passes rt cfg ws st1 = (st2, n2, filter (\<lambda>t. \<not> tx_status t) n2)"
    and a2: "appends st1 n2 st2"
    using Cons.IH by blast
  have "monitor_passes rt cfg (w # ws) st = (st2, n1 @ n2, filter (\<lambda>t. \<not> tx_status t) (n1 @ n2))"
    using s1 s2 by simp
  moreover have "appends st (n1 @ n2) st2" using a1 a2 by (rule appends_trans)
  ultimately show ?case by blast
qed

subsection \<open>Evaluating the examples\<close>

lemmas example_defs =
  example_runtime_def example_config_def example_input_def example_web3_def example_state_def
  failing_logs_web3_def failing_transaction_web3_def failing_height_web3_def
  example_event_def example_now_def example_ledger_state_def timedelta_days_def restarted_state_def

lemmas scan_defs =
  get_recent_transactions_def determine_start_block_def scan_contract_def
  chunk_ranges_def max_blocks_per_request_def py_range.simps unique_hashes_def py_set_def
  py_list_def set_add_def hex_of_bytes_def hex_digit_def check_transaction_def
  is_withdraw_function_def fromtimestamp_def

lemmas pass_defs = monitor_withdrawals_def monitor_chain_def get_transaction_receipt_def
  create_transaction_object_def daily_get_def load_processed_transactions_def
  decode_withdraw_params_def decode_withdraw_body_def is_space_def digit_val_def

lemma filter_hash_distinct:
  "distinct (map f xs) \<Longrightarrow> x \<in> set xs \<Longrightarrow> filter (\<lambda>a. f a = f x) xs = [x]"
proof (induction xs)
  case Nil
  then show ?case by simp
next
  case (Cons y ys)
  show ?case
  proof (cases "x = y")
    case True
    have "filter (\<lambda>a. f a = f y) ys = []"
      using Cons.prems(1) by (auto simp: filter_empty_conv image_iff)
    then show ?thesis using True by simp
  next
    case False
    then have "x \<in> set ys" using Cons.prems(2) by simp
    moreover have "f y \<noteq> f x" using Cons.prems(1) \<open>x \<in> set ys\<close> by (auto simp: image_iff)
    ultimately show ?thesis using Cons by simp
  qed
qed

lemma filter_swap: "filter P (filter Q xs) = filter Q (filter P xs)"
  by (induction xs) auto

subsection \<open>Deduplication across passes and restarts\<close>

text \<open>
  C2. Over any number of successive passes, against any ledgers and from any state, the
  events recorded have pairwise different hashes, so no hash is appended twice; their
  hashes are exactly what the processed set gains; every chain's ledger grows by exactly
  its own new events; and no hash that was processed at the start is recorded or alerted.
  In particular, when the processed set was loaded at startup from a file that lists a
  hash \<open>H\<close>, no later pass appends an event for \<open>H\<close> to any ledger or dispatches an alert
  for \<open>H\<close>. A saved processed set is loaded back with the same members.
\<close>

theorem processed_hash_recorded_at_most_once:
  assumes "monitor_passes rt cfg ledgers st = (st', new, alerts)"
  shows "distinct (map tx_hash new)
       \<and> set (processed_transactions st') = set (processed_transactions st) \<union> set (map tx_hash new)
       \<and> (\<forall>c. daily_get (daily_transactions st') c =
                daily_get (daily_transactions st) c @ filter (\<lambda>t. tx_chain t = c) new)
       \<and> set (map tx_hash alerts) \<subseteq> set (map tx_hash new)
       \<and> (\<forall>H \<in> set (processed_transactions st). H \<notin> set (map tx_hash new))
       \<and> (processed_transactions st = load_processed_transactions (Content (Some persisted)) \<longrightarrow>
            (\<forall>H \<in> set persisted.
               H \<notin> set (map tx_hash new) \<and> H \<notin> set (map tx_hash alerts) \<and>
               (\<forall>c. filter (\<lambda>t. tx_hash t = H) (daily_get (daily_transactions st') c) =
                     filter (\<lambda>t. tx_hash t = H) (daily_get (daily_transactions st) c))))
       \<and> set (load_processed_transactions
                (save_processed_transactions rt (processed_transactions st')))
           = set (processed_transactions st')"
proof -
  obtain st1 n1 where r: "monitor_passes rt cfg ledgers st =
      (st1, n1, filter (\<lambda>t. \<not> tx_status t) n1)" and a: "appends st n1 st'"
    using monitor_passes_appends [of rt cfg ledgers st] assms by auto
  have al: "alerts = filter (\<lambda>t. \<not> tx_status t) new" and n: "n1 = new"
    using r assms by simp_all
  have d: "distinct (map tx_hash new)"
    and fresh: "set (map tx_hash new) \<inter> set (processed_transactions st) = {}"
    and grown: "set (processed_transactions st') =
                  set (processed_transactions st) \<union> set (map tx_hash new)"
    and ledger: "\<forall>c. daily_get (daily_transactions st') c =
                daily_get (daily_transactions st) c @ filter (\<lambda>t. tx_chain t = c) new"
    using a n by (simp_all add: appends_def)
  have sub: "set (map tx_hash alerts) \<subseteq> set (map tx_hash new)"
    using al by auto
  have old: "\<forall>H \<in> set (processed_transactions st). H \<notin> set (map tx_hash new)"
    using fresh by auto
  have same: "filter (\<lambda>t. tx_hash t = H) (daily_get (daily_transactions st') c) =
              filter (\<lambda>t. tx_hash t = H) (daily_get (daily_transactions st) c)"
    if "H \<in> set (processed_transactions st)" for H c
  proof -
    have "filter (\<lambda>t. tx_hash t = H) (filter (\<lambda>t. tx_chain t = c) new) = []"
      using old that by (auto simp: filter_empty_conv)
    then show ?thesis using ledger by simp
  qed
  have reload: "processed_transactions st = load_processed_transactions (Content (Some persisted)) \<longrightarrow>
            (\<forall>H \<in> set persisted.
               H \<notin> set (map tx_hash new) \<and> H \<notin> set (map tx_hash alerts) \<and>
               (\<forall>c. filter (\<lambda>t. tx_hash t = H) (daily_get (daily_transactions st') c) =
                     filter (\<lambda>t. tx_hash t = H) (daily_get (daily_transactions st) c)))"
  proof (intro impI ballI)
    fix H
    assume l: "processed_transactions st = load_processed_transactions (Content (Some persisted))"
      and "H \<in> set persisted"
    then have p: "H \<in> set (processed_transactions st)"
      by (simp add: load_processed_transactions_def)
    then have "H \<notin> set (map tx_hash new)" using old by blast
    moreover from this have "H \<notin> set (map tx_hash alerts)" using sub by blast
    ultimately show "H \<notin> set (map tx_hash new) \<and> H \<notin> set (map tx_hash alerts) \<and>
               (\<forall>c. filter (\<lambda>t. tx_hash t = H) (daily_get (daily_transactions st') c) =
                     filter (\<lambda>t. tx_hash t = H) (daily_get (daily_transactions st) c))"
      using same [OF p] by blast
  qed
  have rt: "set (load_processed_transactions
                (save_processed_transactions rt (processed_transactions st')))
           = set (processed_transactions st')"
    by (simp add: load_processed_transactions_def save_processed_transactions_def)
  from d grown ledger sub old reload rt show ?thesis by (intro conjI)
qed

theorem processed_hash_recorded_at_most_once_witness:
  "processed_transactions restarted_state = load_processed_transactions (Content (Some [''aa'']))
   \<and> map td_hash (projr (fst (get_recent_transactions example_runtime example_config
        [''ethereum'' \<mapsto> example_web3] Map.empty ''ethereum'' None))) = [''aa'', ''bb'']
   \<and> map tx_hash (fst (snd (monitor_passes example_runtime example_config
        [[''ethereum'' \<mapsto> example_web3], [''ethereum'' \<mapsto> example_web3]] restarted_state)))
      = [''bb'']
   \<and> snd (snd (monitor_passes example_runtime example_config
        [[''ethereum'' \<mapsto> example_web3], [''ethereum'' \<mapsto> example_web3]] restarted_state))
      = []
   \<and> map tx_hash (daily_get (daily_transactions (fst (monitor_passes example_runtime example_config
        [[''ethereum'' \<mapsto> example_web3], [''ethereum'' \<mapsto> example_web3]] restarted_state)))
        ''ethereum'') = [''aa'', ''bb'']"
proof -
  let ?M = "monitor_passes example_runtime example_config
        [[''ethereum'' \<mapsto> example_web3], [''ethereum'' \<mapsto> example_web3]] restarted_state"
  have l: "processed_transactions restarted_state =
           load_processed_transactions (Content (Some [''aa'']))"
    by (simp add: restarted_state_def)
  have s: "map td_hash (projr (fst (get_recent_transactions example_runtime example_config
        [''ethereum'' \<mapsto> example_web3] Map.empty ''ethereum'' None))) = [''aa'', ''bb'']"
    by (simp add: example_defs scan_defs)
  have c: "map tx_hash (fst (snd ?M)) = [''bb''] \<and> snd (snd ?M) = []"
    by (simp add: example_defs scan_defs pass_defs)
  have o: "map tx_hash (daily_get (daily_transactions restarted_state) ''ethereum'') = [''aa'']"
    by (simp add: example_defs daily_get_def)
  have f: "filter (\<lambda>t. tx_chain t = ''ethereum'') (fst (snd ?M)) = fst (snd ?M)"
    by (simp add: example_defs scan_defs pass_defs)
  obtain st' new alerts where h: "?M = (st', new, alerts)"
    by (rule prod_cases3)
  have "daily_get (daily_transactions st') ''ethereum'' =
        daily_get (daily_transactions restarted_state) ''ethereum'' @
          filter (\<lambda>t. tx_chain t = ''ethereum'') new"
    using processed_hash_recorded_at_most_once [OF h] by blast
  moreover have "filter (\<lambda>t. tx_chain t = ''ethereum'') new = new"
    using f [unfolded h] by simp
  ultimately have "map tx_hash (daily_get (daily_transactions (fst ?M)) ''ethereum'')
       = [''aa'', ''bb'']"
    unfolding h using c [unfolded h] o by simp
  then show ?thesis using l s c by (simp only: simp_thms)
qed

subsection \<open>Alert dispatch\<close>

text \<open>
  C5. In a pass, the failure alert is dispatched for exactly the newly recorded events
  whose status is false, in order: for every new event the number of dispatches with its
  hash is one when its status is false and zero when it is true. New events have
  pairwise different hashes, none of them in the processed set at the start of the
  pass, so a hash that is already processed never triggers a dispatch.
\<close>

theorem failure_alert_dispatched_once:
  assumes "monitor_withdrawals rt cfg web3_instances st = (st', new, alerts)"
  shows "alerts = filter (\<lambda>t. \<not> tx_status t) new
       \<and> distinct (map tx_hash new)
       \<and> (\<forall>t \<in> set new.
            length (filter (\<lambda>a. tx_hash a = tx_hash t) alerts) = (if tx_status t then 0 else 1))
       \<and> (\<forall>t \<in> set new. tx_hash t \<notin> set (processed_transactions st))
       \<and> (\<forall>a \<in> set alerts. tx_hash a \<notin> set (processed_transactions st))"
proof -
  obtain st1 n1 where r: "monitor_withdrawals rt cfg web3_instances st =
      (st1, n1, filter (\<lambda>t. \<not> tx_status t) n1)" and a: "appends st n1 st1"
    using monitor_withdrawals_appends by blast
  have n: "n1 = new" and al: "alerts = filter (\<lambda>t. \<not> tx_status t) new"
    using r assms by simp_all
  have d: "distinct (map tx_hash new)"
    and fresh: "set (map tx_hash new) \<inter> set (processed_transactions st) = {}"
    using a n by (simp_all add: appends_def)
  have cnt: "length (filter (\<lambda>a. tx_hash a = tx_hash t) alerts) = (if tx_status t then 0 else 1)"
    if t: "t \<in> set new" for t
  proof -
    have one: "filter (\<lambda>a. tx_hash a = tx_hash t) new = [t]"
      using d t by (rule filter_hash_distinct)
    have "filter (\<lambda>a. tx_hash a = tx_hash t) alerts =
          filter (\<lambda>t. \<not> tx_status t) (filter (\<lambda>a. tx_hash a = tx_hash t) new)"
      unfolding al by (rule filter_swap)
    then have "filter (\<lambda>a. tx_hash a = tx_hash t) alerts = filter (\<lambda>t. \<not> tx_status t) [t]"
      by (simp only: one)
    then show ?thesis by simp
  qed
  have f1: "\<forall>t \<in> set new. tx_hash t \<notin> set (processed_transactions st)"
    using fresh by auto
  then have f2: "\<forall>a \<in> set alerts. tx_hash a \<notin> set (processed_transactions st)"
    using al by simp
  have c: "\<forall>t \<in> set new.
            length (filter (\<lambda>a. tx_hash a = tx_hash t) alerts) = (if tx_status t then 0 else 1)"
    using cnt by blast
  from al d c f1 f2 show ?thesis by (intro conjI)
qed

theorem failure_alert_dispatched_once_witness:
  "map tx_hash (fst (snd (monitor_withdrawals example_runtime example_config
       [''ethereum'' \<mapsto> example_web3] example_state))) = [''aa'', ''bb'']
   \<and> map tx_status (fst (snd (monitor_withdrawals example_runtime example_config
       [''ethereum'' \<mapsto> example_web3] example_state))) = [False, True]
   \<and> map tx_hash (snd (snd (monitor_withdrawals example_runtime example_config
       [''ethereum'' \<mapsto> example_web3] example_state))) = [''aa'']
   \<and> snd (snd (monitor_withdrawals example_runtime example_config
       [''ethereum'' \<mapsto> example_web3] example_state))
      = filter (\<lambda>t. \<not> tx_status t) (fst (snd (monitor_withdrawals example_runtime example_config
       [''ethereum'' \<mapsto> example_web3] example_state)))"
proof -
  let ?M = "monitor_withdrawals example_runtime example_config
       [''ethereum'' \<mapsto> example_web3] example_state"
  have c: "map tx_hash (fst (snd ?M)) = [''aa'', ''bb'']
      \<and> map tx_status (fst (snd ?M)) = [False, True]
      \<and> map tx_hash (snd (snd ?M)) = [''aa'']"
    by (simp add: example_defs scan_defs pass_defs)
  obtain st' new alerts where h: "?M = (st', new, alerts)"
    by (rule prod_cases3)
  have "snd (snd ?M) = filter (\<lambda>t. \<not> tx_status t) (fst (snd ?M))"
    using failure_alert_dispatched_once [OF h] by (simp add: h)
  then show ?thesis using c by simp
qed

subsection \<open>Failures during a scan pass\<close>

lemma check_transactions_map_filter:
  "check_transactions rt w3 hs acc = acc @ List.map_filter (resolved rt w3) hs"
  by (induction hs arbitrary: acc)
     (auto simp: List.map_filter_simps resolved_def split: sum.splits option.splits)

text \<open>
  C4, as the code has it. When a sub-range log request fails during a scan pass, the
  requests issued are those before it and the failing one, once, and none after it: it is
  not retried. The failure is caught inside \<open>get_recent_transactions\<close>, and the caller
  receives an ordinary empty list, so the logs gathered from the earlier sub-ranges are
  dropped and the pass yields no candidate transaction.
\<close>

theorem log_failure_is_caught:
  assumes "web3_instances chain_name = Some w3"
    and "cfg_exchange_contracts cfg chain_name = Some contract_address"
    and "eth_block_number w3 = Inr current_block"
    and "determine_start_block cfg cursors chain_name current_block start_block = Some start"
    and "to_checksum_address rt contract_address = Inr address"
    and "chunk_ranges start current_block = before @ (a, b) # after"
    and "\<forall>(x, y) \<in> set before. \<not> isl (eth_get_logs w3 x y address)"
    and "eth_get_logs w3 a b address = Inl e"
  shows "fst (get_recent_transactions rt cfg web3_instances cursors chain_name start_block) = Inr []
       \<and> snd (snd (get_recent_transactions rt cfg web3_instances cursors chain_name start_block))
           = before @ [(a, b)]"
proof -
  have "collect_logs w3 address (chunk_ranges start current_block) [] = (before @ [(a, b)], Inl e)"
    unfolding assms(6) using assms(7,8) by (rule collect_logs_first_failure)
  then show ?thesis
    using assms(1-5) by (simp add: get_recent_transactions_def scan_contract_def)
qed

theorem log_failure_is_caught_witness:
  "eth_get_logs failing_logs_web3 600 1099 ''0xC0'' = Inl RpcError
   \<and> fst (get_recent_transactions example_runtime example_config
        [''ethereum'' \<mapsto> failing_logs_web3] [''ethereum'' \<mapsto> 99] ''ethereum'' None) = Inr []
   \<and> snd (snd (get_recent_transactions example_runtime example_config
        [''ethereum'' \<mapsto> failing_logs_web3] [''ethereum'' \<mapsto> 99] ''ethereum'' None))
       = [(100, 599), (600, 1099)]"
proof -
  have h1: "[''ethereum'' \<mapsto> failing_logs_web3] ''ethereum'' = Some failing_logs_web3" by simp
  have h2: "cfg_exchange_contracts example_config ''ethereum'' = Some ''0xC0''"
    by (simp add: example_config_def)
  have h3: "eth_block_number failing_logs_web3 = Inr 1199"
    by (simp add: failing_logs_web3_def example_web3_def)
  have h4: "determine_start_block example_config [''ethereum'' \<mapsto> 99] ''ethereum'' 1199 None = Some 100"
    by (simp add: determine_start_block_def)
  have h5: "to_checksum_address example_runtime ''0xC0'' = Inr ''0xC0''"
    by (simp add: example_runtime_def)
  have h6: "chunk_ranges 100 1199 = [(100, 599)] @ (600, 1099) # [(1100, 1199)]"
    by (simp add: chunk_ranges_def max_blocks_per_request_def py_range.simps)
  have h7: "\<forall>(x, y) \<in> set [(100, 599)]. \<not> isl (eth_get_logs failing_logs_web3 x y ''0xC0'')"
    by (simp add: failing_logs_web3_def example_web3_def)
  have h8: "eth_get_logs failing_logs_web3 600 1099 ''0xC0'' = Inl RpcError"
    by (simp add: failing_logs_web3_def)
  show ?thesis
    using log_failure_is_caught [where web3_instances = "[''ethereum'' \<mapsto> failing_logs_web3]"
        and chain_name = "''ethereum''" and cfg = example_config and rt = example_runtime
        and cursors = "[''ethereum'' \<mapsto> 99]" and start_block = None
        and before = "[(100, 599)]" and after = "[(1100, 1199)]",
        OF h1 h2 h3 h4 h5 h6 h7 h8] h8
    by simp
qed

text \<open>
  C4 as stated has the failure propagate to the caller. On the ledger whose log request
  for blocks 600 to 1099 raises, that request is issued and the call returns the empty
  list, not the exception.
\<close>

theorem log_failure_not_propagated:
  "eth_get_logs failing_logs_web3 600 1099 ''0xC0'' = Inl RpcError
   \<and> (600, 1099) \<in> set (snd (snd (get_recent_transactions example_runtime example_config
        [''ethereum'' \<mapsto> failing_logs_web3] [''ethereum'' \<mapsto> 99] ''ethereum'' None)))
   \<and> fst (get_recent_transactions example_runtime example_config
        [''ethereum'' \<mapsto> failing_logs_web3] [''ethereum'' \<mapsto> 99] ''ethereum'' None)
       \<noteq> Inl RpcError
   \<and> fst (get_recent_transactions example_runtime example_config
        [''ethereum'' \<mapsto> failing_logs_web3] [''ethereum'' \<mapsto> 99] ''ethereum'' None) = Inr []"
  by (simp add: example_defs scan_defs)

text \<open>
  C1, as the code has it. If reading the chain height fails, the pass for the chain
  returns no transactions, issues no log request and leaves the cursors as they were.
  If a sub-range log request fails, the pass returns no transactions. If every log
  request answers, the pass returns the withdraw transactions of exactly those candidate
  hashes whose resolution calls answered: a failing resolution call skips that one hash
  and the pass goes on. When no call of the pass fails, the cursor of the chain is the
  height read at the start of the pass, and the other cursors are unchanged.
\<close>

theorem scan_pass_failures:
  assumes "web3_instances chain_name = Some w3"
    and "cfg_exchange_contracts cfg chain_name = Some contract_address"
  shows "case eth_block_number w3 of
           Inl e \<Rightarrow>
             get_recent_transactions rt cfg web3_instances cursors chain_name start_block
               = (Inr [], cursors, [])
         | Inr current_block \<Rightarrow>
             (\<forall>start address.
                determine_start_block cfg cursors chain_name current_block start_block = Some start
                \<longrightarrow> to_checksum_address rt contract_address = Inr address
                \<longrightarrow> (case snd (collect_logs w3 address (chunk_ranges start current_block) []) of
                       Inl e \<Rightarrow>
                         fst (get_recent_transactions rt cfg web3_instances cursors chain_name
                                start_block) = Inr []
                     | Inr all_logs \<Rightarrow>
                         fst (get_recent_transactions rt cfg web3_instances cursors chain_name
                                start_block)
                           = Inr (List.map_filter (resolved rt w3) (unique_hashes rt all_logs))
                         \<and> ((\<forall>h \<in> set (unique_hashes rt all_logs).
                                \<not> isl (check_transaction rt w3 h))
                            \<longrightarrow> fst (snd (get_recent_transactions rt cfg web3_instances cursors
                                             chain_name start_block))
                                  = cursors(chain_name \<mapsto> current_block))))"
proof (cases "eth_block_number w3")
  case (Inl e)
  then show ?thesis using assms by (simp add: get_recent_transactions_def)
next
  case (Inr current_block)
  have "case snd (collect_logs w3 address (chunk_ranges start current_block) []) of
          Inl e \<Rightarrow>
            fst (get_recent_transactions rt cfg web3_instances cursors chain_name start_block)
              = Inr []
        | Inr all_logs \<Rightarrow>
            fst (get_recent_transactions rt cfg web3_instances cursors chain_name start_block)
              = Inr (List.map_filter (resolved rt w3) (unique_hashes rt all_logs))
            \<and> ((\<forall>h \<in> set (unique_hashes rt all_logs). \<not> isl (check_transaction rt w3 h))
               \<longrightarrow> fst (snd (get_recent_transactions rt cfg web3_instances cursors
                                chain_name start_block))
                     = cursors(chain_name \<mapsto> current_block))"
    if s: "determine_start_block cfg cursors chain_name current_block start_block = Some start"
      and c: "to_checksum_address rt contract_address = Inr address"
    for start address
  proof (cases "collect_logs w3 address (chunk_ranges start current_block) []")
    case (Pair issued r)
    then show ?thesis
      using assms Inr s c
      by (cases r)
         (simp_all add: get_recent_transactions_def scan_contract_def
            check_transactions_map_filter)
  qed
  then show ?thesis using Inr by simp
qed

theorem scan_pass_failures_witness:
  "get_recent_transactions example_runtime example_config
      [''ethereum'' \<mapsto> failing_height_web3] [''ethereum'' \<mapsto> 99] ''ethereum'' None
     = (Inr [], [''ethereum'' \<mapsto> 99], [])
   \<and> map td_hash (projr (fst (get_recent_transactions example_runtime example_config
        [''ethereum'' \<mapsto> example_web3] [''ethereum'' \<mapsto> 99] ''ethereum'' None)))
       = [''aa'', ''bb'']
   \<and> fst (snd (get_recent_transactions example_runtime example_config
        [''ethereum'' \<mapsto> example_web3] [''ethereum'' \<mapsto> 99] ''ethereum'' None))
       = [''ethereum'' \<mapsto> 99](''ethereum'' \<mapsto> 1199)"
proof -
  have c: "cfg_exchange_contracts example_config ''ethereum'' = Some ''0xC0''"
    by (simp add: example_config_def)
  have i1: "[''ethereum'' \<mapsto> failing_height_web3] ''ethereum'' = Some failing_height_web3"
    by simp
  have i2: "[''ethereum'' \<mapsto> example_web3] ''ethereum'' = Some example_web3"
    by simp
  have a: "get_recent_transactions example_runtime example_config
      [''ethereum'' \<mapsto> failing_height_web3] [''ethereum'' \<mapsto> 99] ''ethereum'' None
     = (Inr [], [''ethereum'' \<mapsto> 99], [])"
    using scan_pass_failures [where web3_instances = "[''ethereum'' \<mapsto> failing_height_web3]"
        and chain_name = "''ethereum''" and cfg = example_config and rt = example_runtime
        and cursors = "[''ethereum'' \<mapsto> 99]" and start_block = None, OF i1 c]
    by (simp add: failing_height_web3_def)
  have h: "eth_block_number example_web3 = Inr 1199"
    by (simp add: example_web3_def)
  have s: "determine_start_block example_config [''ethereum'' \<mapsto> 99] ''ethereum'' 1199 None
            = Some 100"
    by (simp add: determine_start_block_def)
  have k: "to_checksum_address example_runtime ''0xC0'' = Inr ''0xC0''"
    by (simp add: example_runtime_def)
  have l: "snd (collect_logs example_web3 ''0xC0'' (chunk_ranges 100 1199) [])
            = Inr [\<lparr> transactionHash = [0xaa] \<rparr>, \<lparr> transactionHash = [0xbb] \<rparr>,
                   \<lparr> transactionHash = [0xbb] \<rparr>]"
    by (simp add: chunk_ranges_def max_blocks_per_request_def py_range.simps example_web3_def)
  have u: "unique_hashes example_runtime
             [\<lparr> transactionHash = [0xaa] \<rparr>, \<lparr> transactionHash = [0xbb] \<rparr>,
              \<lparr> transactionHash = [0xbb] \<rparr>] = [''aa'', ''bb'']"
    by (simp add: unique_hashes_def py_set_def py_list_def set_add_def hex_of_bytes_def
          hex_digit_def example_runtime_def)
  have ok: "\<forall>h \<in> set [''aa'', ''bb'']. \<not> isl (check_transaction example_runtime example_web3 h)"
    by (simp add: check_transaction_def example_web3_def example_runtime_def example_input_def
          is_withdraw_function_def)
  have r: "map td_hash (List.map_filter (resolved example_runtime example_web3) [''aa'', ''bb''])
             = [''aa'', ''bb'']"
    by (simp add: List.map_filter_simps resolved_def check_transaction_def example_web3_def
          example_runtime_def example_input_def is_withdraw_function_def)
  have b: "fst (get_recent_transactions example_runtime example_config
             [''ethereum'' \<mapsto> example_web3] [''ethereum'' \<mapsto> 99] ''ethereum'' None)
           = Inr (List.map_filter (resolved example_runtime example_web3) [''aa'', ''bb''])
         \<and> fst (snd (get_recent_transactions example_runtime example_config
             [''ethereum'' \<mapsto> example_web3] [''ethereum'' \<mapsto> 99] ''ethereum'' None))
           = [''ethereum'' \<mapsto> 99](''ethereum'' \<mapsto> 1199)"
    using scan_pass_failures [where web3_instances = "[''ethereum'' \<mapsto> example_web3]"
        and chain_name = "''ethereum''" and cfg = example_config and rt = example_runtime
        and cursors = "[''ethereum'' \<mapsto> 99]" and start_block = None, OF i2 c]
      s k ok
    by (simp add: h l u)
  show ?thesis using a b r by simp
qed

text \<open>
  C1 as stated has the pass abort, and the cursor stay, when a resolution call fails.
  On the ledger whose request for transaction \<^verbatim>\<open>aa\<close> raises, the pass goes on to return
  \<^verbatim>\<open>bb\<close>, and the cursor moves from 99 to 1199.
\<close>

theorem resolution_failure_does_not_abort:
  "eth_get_transaction failing_transaction_web3 ''aa'' = Inl RpcError
   \<and> map td_hash (projr (fst (get_recent_transactions example_runtime example_config
        [''ethereum'' \<mapsto> failing_transaction_web3] [''ethereum'' \<mapsto> 99] ''ethereum'' None)))
       = [''bb'']
   \<and> [''ethereum'' \<mapsto> 99] ''ethereum'' = Some (99 :: int)
   \<and> fst (snd (get_recent_transactions example_runtime example_config
        [''ethereum'' \<mapsto> failing_transaction_web3] [''ethereum'' \<mapsto> 99] ''ethereum'' None))
        ''ethereum'' = Some 1199"
  by (simp add: example_defs scan_defs)

subsection \<open>Statistics for a window\<close>

lemma fold_stats_lookup:
  "fold (\<lambda>c stats. stats(c \<mapsto> f c)) cs m c' = (if c' \<in> set cs then Some (f c') else m c')"
  by (induction cs arbitrary: m) auto

lemma get_daily_statistics_for_period_lookup:
  "get_daily_statistics_for_period cfg st start_time end_time c =
     (if c \<in> set (cfg_chains cfg)
      then Some (period_stats (daily_get (daily_transactions st) c) start_time end_time)
      else None)"
  unfolding get_daily_statistics_for_period_def Let_def
  by (simp add: fold_stats_lookup)

text \<open>
  C8. For every configured chain and every window, the statistics exist; the count of
  successful and the count of failed withdrawals add up to the total and are the lengths
  of the two lists; every listed entry has its timestamp between the start and the end of
  the window, both included; and the two lists are, in ledger order, the events of the
  window with status true and those with status false.
\<close>

theorem statistics_for_window:
  assumes "chain_name \<in> set (cfg_chains cfg)"
  shows "\<exists>r. get_daily_statistics_for_period cfg st start_time end_time chain_name = Some r
       \<and> successful_withdrawals r + failed_withdrawals r = total_withdrawals r
       \<and> successful_withdrawals r = length (successful_transactions r)
       \<and> failed_withdrawals r = length (failed_transactions r)
       \<and> (\<forall>e \<in> set (successful_transactions r).
             start_time \<le> se_timestamp e \<and> se_timestamp e \<le> end_time)
       \<and> (\<forall>e \<in> set (failed_transactions r).
             start_time \<le> fe_timestamp e \<and> fe_timestamp e \<le> end_time)
       \<and> map se_hash (successful_transactions r) =
           map tx_hash (filter (\<lambda>t. tx_status t \<and> start_time \<le> tx_timestamp t \<and> tx_timestamp t \<le> end_time)
              (daily_get (daily_transactions st) chain_name))
       \<and> map fe_hash (failed_transactions r) =
           map tx_hash (filter (\<lambda>t. \<not> tx_status t \<and> start_time \<le> tx_timestamp t \<and> tx_timestamp t \<le> end_time)
              (daily_get (daily_transactions st) chain_name))"
proof -
  let ?ts = "daily_get (daily_transactions st) chain_name"
  let ?r = "period_stats ?ts start_time end_time"
  have l: "get_daily_statistics_for_period cfg st start_time end_time chain_name = Some ?r"
    using assms by (simp add: get_daily_statistics_for_period_lookup)
  have total: "successful_withdrawals ?r + failed_withdrawals ?r = total_withdrawals ?r"
    using sum_length_filter_compl [of tx_status
      "filter (\<lambda>t. start_time \<le> tx_timestamp t \<and> tx_timestamp t \<le> end_time) ?ts"]
    by (simp add: period_stats_def Let_def)
  have len: "successful_withdrawals ?r = length (successful_transactions ?r)"
      "failed_withdrawals ?r = length (failed_transactions ?r)"
    by (simp_all add: period_stats_def Let_def)
  have win: "\<forall>e \<in> set (successful_transactions ?r).
             start_time \<le> se_timestamp e \<and> se_timestamp e \<le> end_time"
      "\<forall>e \<in> set (failed_transactions ?r).
             start_time \<le> fe_timestamp e \<and> fe_timestamp e \<le> end_time"
    by (auto simp: period_stats_def Let_def)
  have part: "map se_hash (successful_transactions ?r) =
           map tx_hash (filter (\<lambda>t. tx_status t \<and> start_time \<le> tx_timestamp t \<and> tx_timestamp t \<le> end_time) ?ts)"
      "map fe_hash (failed_transactions ?r) =
           map tx_hash (filter (\<lambda>t. \<not> tx_status t \<and> start_time \<le> tx_timestamp t \<and> tx_timestamp t \<le> end_time) ?ts)"
    by (simp_all add: period_stats_def Let_def comp_def conj_commute conj_left_commute)
  from l total len win part show ?thesis by blast
qed

theorem statistics_for_window_witness:
  "''ethereum'' \<in> set (cfg_chains example_config)
   \<and> map_option (\<lambda>r. (successful_withdrawals r, failed_withdrawals r, total_withdrawals r,
                       map se_hash (successful_transactions r),
                       map fe_hash (failed_transactions r)))
       (get_daily_statistics_for_period example_config example_ledger_state
          (example_now - timedelta_days 7) (example_now - timedelta_days 1) ''ethereum'')
     = Some (2, 1, 3, [''bb'', ''cc''], [''aa''])"
proof -
  have h: "''ethereum'' \<in> set (cfg_chains example_config)"
    by (simp add: example_config_def)
  have e: "map_option (\<lambda>r. (successful_withdrawals r, failed_withdrawals r, total_withdrawals r,
                       map se_hash (successful_transactions r),
                       map fe_hash (failed_transactions r)))
       (get_daily_statistics_for_period example_config example_ledger_state
          (example_now - timedelta_days 7) (example_now - timedelta_days 1) ''ethereum'')
     = Some (2, 1, 3, [''bb'', ''cc''], [''aa''])"
    by (simp add: get_daily_statistics_for_period_def period_stats_def daily_get_def example_defs)
  show ?thesis
    using statistics_for_window [OF h, of example_ledger_state "example_now - timedelta_days 7"
      "example_now - timedelta_days 1"] h e by blast
qed

subsection \<open>Pruning the event ledger\<close>

lemma daily_get_cleanup_daily:
  "daily_get (cleanup_daily cutoff_time daily) c =
     filter (\<lambda>t. tx_timestamp t > cutoff_time) (daily_get daily c)"
  by (simp add: daily_get_def cleanup_daily_def Let_def split: option.splits)

text \<open>
  C9 at the boundary. The example ledger holds an event exactly seven days old, one a
  microsecond younger and one a day old. \<open>cleanup_old_data\<close> with a horizon of seven days
  keeps the two younger events and removes the event whose timestamp equals the cutoff.
\<close>

theorem cleanup_old_data_drops_event_at_cutoff:
  "daily_get (daily_transactions example_ledger_state) ''ethereum'' =
     [example_event ''aa'' False (example_now - timedelta_days 7),
      example_event ''bb'' True (example_now - timedelta_days 7 + 1),
      example_event ''cc'' True (example_now - timedelta_days 1)]
   \<and> daily_get (daily_transactions
        (cleanup_old_data example_runtime example_now 7 example_ledger_state)) ''ethereum'' =
     [example_event ''bb'' True (example_now - timedelta_days 7 + 1),
      example_event ''cc'' True (example_now - timedelta_days 1)]"
  by (simp add: cleanup_old_data_def daily_get_cleanup_daily)
     (simp add: daily_get_def example_ledger_state_def example_event_def example_now_def
        timedelta_days_def)

subsection \<open>Bounding the processed set\<close>

lemma fold_set_add_distinct:
  "distinct (acc @ xs) \<Longrightarrow> fold set_add xs acc = acc @ xs"
  by (induction xs arbitrary: acc) (auto simp: set_add_def)

lemma py_set_distinct: "distinct xs \<Longrightarrow> py_set xs = xs"
  using fold_set_add_distinct [of "[]" xs] by (simp add: py_set_def)

lemma sort_key_reverses:
  assumes "sorted_wrt (\<lambda>x y. f y < f x) xs"
  shows "sort_key f xs = rev xs"
proof (rule properties_for_sort_key)
  show "mset (rev xs) = mset xs" by simp
  have d: "distinct (map f xs)"
    using assms by (induction xs) auto
  have s: "sorted_wrt (\<lambda>x y. f x < f y) (rev xs)"
    using assms by (simp add: sorted_wrt_rev)
  show "sorted (map f (rev xs))"
    using s by (simp add: sorted_wrt_map sorted_wrt_mono_rel [of "rev xs" "\<lambda>x y. f x < f y"] del: rev_map)
  fix k assume "k \<in> set (rev xs)"
  then have k: "k \<in> set xs" by simp
  have d': "distinct (map f (rev xs))" using d by (simp add: rev_map [symmetric] del: rev_map)
  have "filter (\<lambda>a. f a = f k) xs = [k]" using d k by (rule filter_hash_distinct)
  moreover have "filter (\<lambda>a. f a = f k) (rev xs) = [k]"
    using d' k by (intro filter_hash_distinct) simp_all
  ultimately show "filter (\<lambda>x. f k = f x) (rev xs) = filter (\<lambda>x. f k = f x) xs"
    by (simp add: eq_commute [of "f k"])
qed

lemma distinct_example_hashes: "distinct example_hashes"
  by (simp add: example_hashes_def distinct_map inj_on_def)

lemma length_example_hashes: "length example_hashes = 10001"
  by (simp add: example_hashes_def)

lemma example_hashes_slots:
  "sorted_wrt (\<lambda>x y. set_slot reversing_runtime y < set_slot reversing_runtime x) example_hashes"
  unfolding example_hashes_def sorted_wrt_map
  by (rule sorted_wrt_mono_rel [OF _ sorted_wrt_upt]) (simp add: reversing_runtime_def)

text \<open>
  C3 on an overflowing set. The 10001 example hashes are added in order, oldest first.
  The set has no record of that order: \<^verbatim>\<open>list(...)\<close> lists it in slot order, here the
  reverse, and the slice keeps the last 5000 of that list. What remains after
  \<open>cleanup_processed\<close> is the 5000 hashes added first; every one of the 5001 hashes added
  most recently is evicted.
\<close>

theorem cleanup_processed_keeps_oldest:
  "py_set example_hashes = example_hashes
   \<and> length example_hashes = 10001
   \<and> py_list reversing_runtime example_hashes = rev example_hashes
   \<and> cleanup_processed reversing_runtime (py_set example_hashes) = rev (take 5000 example_hashes)
   \<and> set (cleanup_processed reversing_runtime (py_set example_hashes))
        \<inter> set (drop 5000 example_hashes) = {}"
proof -
  have p: "py_set example_hashes = example_hashes"
    using distinct_example_hashes by (rule py_set_distinct)
  have l: "py_list reversing_runtime example_hashes = rev example_hashes"
    unfolding py_list_def using example_hashes_slots by (rule sort_key_reverses)
  have "drop (length (rev example_hashes) - 5000) (rev example_hashes) = rev (take 5000 example_hashes)"
    by (simp add: length_example_hashes rev_take)
  moreover have "distinct (rev (take 5000 example_hashes))"
    using distinct_example_hashes by simp
  ultimately have c: "cleanup_processed reversing_runtime (py_set example_hashes) =
      rev (take 5000 example_hashes)"
    by (simp add: cleanup_processed_def p l length_example_hashes py_set_distinct)
  have "set (take 5000 example_hashes) \<inter> set (drop 5000 example_hashes) = {}"
    using distinct_example_hashes set_take_disj_set_drop_if_distinct [of example_hashes 5000 5000]
    by simp
  then show ?thesis using p l c length_example_hashes by simp
qed

end
